theory Spec2Isabelle
  imports Main
begin

section \<open>SQL values and three-valued logic\<close>

text \<open>
  The store is the schema of the repository (tables, CHECK constraints, triggers and
  row level security policies). A nullable column is an \<open>option\<close> (\<open>None\<close> is NULL),
  a NOT NULL column is the plain type. A condition evaluates to true, false or unknown:
  \<open>Some True\<close>, \<open>Some False\<close>, \<open>None\<close>. A policy lets a row through only when its
  condition is true; a CHECK constraint refuses a row only when its condition is false.
\<close>

type_synonym uuid = string
type_synonym sql_date = int
type_synonym timestamptz = int
type_synonym sql_bool = "bool option"

definition sql_eq :: "'a option \<Rightarrow> 'a option \<Rightarrow> sql_bool" where
  "sql_eq x y = (case x of None \<Rightarrow> None | Some a \<Rightarrow> (case y of None \<Rightarrow> None | Some b \<Rightarrow> Some (a = b)))"

definition sql_ge :: "int option \<Rightarrow> int option \<Rightarrow> sql_bool" where
  "sql_ge x y = (case x of None \<Rightarrow> None | Some a \<Rightarrow> (case y of None \<Rightarrow> None | Some b \<Rightarrow> Some (b \<le> a)))"

definition sql_and :: "sql_bool \<Rightarrow> sql_bool \<Rightarrow> sql_bool" where
  "sql_and p q =
     (if p = Some False \<or> q = Some False then Some False
      else if p = Some True \<and> q = Some True then Some True
      else None)"

definition sql_or :: "sql_bool \<Rightarrow> sql_bool \<Rightarrow> sql_bool" where
  "sql_or p q =
     (if p = Some True \<or> q = Some True then Some True
      else if p = Some False \<and> q = Some False then Some False
      else None)"

text \<open>\<open>x in (v1, ..., vn)\<close> with literal, non-null \<open>vi\<close>: unknown when \<open>x\<close> is NULL.\<close>

definition sql_in :: "'a option \<Rightarrow> 'a list \<Rightarrow> sql_bool" where
  "sql_in x vs = (case x of None \<Rightarrow> None | Some a \<Rightarrow> Some (a \<in> set vs))"

definition policy_passes :: "sql_bool \<Rightarrow> bool" where
  "policy_passes c = (c = Some True)"

definition check_passes :: "sql_bool \<Rightarrow> bool" where
  "check_passes c = (c \<noteq> Some False)"

text \<open>
  The errors of the store: infinite recursion detected in a policy (SQLSTATE 42P17), a new
  row that violates the row level security policies (42501), a CHECK constraint (23514),
  a foreign key (23503), and a value outside the range of \<open>integer\<close> (22003).
\<close>

datatype sql_error =
  PolicyRecursion | RlsViolation | CheckViolation | ForeignKeyViolation | NumericValueOutOfRange

text \<open>
  Who runs a statement: a client of the API, with \<open>auth.uid()\<close> the id of the signed-in
  user (NULL when nobody is signed in), subject to row level security; or the owner of
  the tables (the SQL editor, where the schema has an admin made with
  \<open>UPDATE public.profiles SET role = 'admin'\<close>), whom row level security does not bind,
  since the tables enable it without forcing it.
\<close>

datatype caller = Owner | Client "uuid option"

datatype table_name = Profiles | Therapists | Bookings

text \<open>
  What a statement does to one stored row: it is refused with an error, it does not
  reach the row (the row is filtered out by the policies: no error, nothing changes),
  or it stores the row given. A select answers an error or the rows it returns.
\<close>

datatype 'a dml_result = Rejected sql_error | NoRow | Done 'a

definition returned_rows :: "sql_error + 'a list \<Rightarrow> 'a list" where
  "returned_rows res = (case res of Inl e \<Rightarrow> [] | Inr rows \<Rightarrow> rows)"

text \<open>A column with a DEFAULT in an INSERT: left out, or given (NULL included).\<close>

datatype 'a col_arg = Default | Given 'a

definition col_value :: "'a \<Rightarrow> 'a col_arg \<Rightarrow> 'a" where
  "col_value d a = (case a of Default \<Rightarrow> d | Given v \<Rightarrow> v)"

section \<open>Tables\<close>

text \<open>Table \<open>public.profiles\<close>. Fields carry the prefix \<open>p_\<close>.\<close>

record profile =
  p_user_id :: uuid
  p_email :: string
  p_role :: string
  p_full_name :: "string option"
  p_phone :: "string option"
  p_date_of_birth :: "sql_date option"
  p_gender :: "string option"
  p_city :: "string option"
  p_address :: "string option"
  p_emergency_contact_name :: "string option"
  p_emergency_contact_phone :: "string option"
  p_profile_picture_url :: "string option"
  p_status :: "string option"
  p_approved :: "bool option"
  p_created_at :: "timestamptz option"
  p_updated_at :: "timestamptz option"

text \<open>Table \<open>public."Therapists"\<close>. Fields carry the prefix \<open>t_\<close>.\<close>

record therapist =
  t_id :: uuid
  t_user_id :: uuid
  t_Name :: string
  t_email :: string
  t_phone :: "string option"
  t_Specialization :: string
  t_fee :: int
  t_bio :: "string option"
  t_experience :: "int option"
  t_license :: "string option"
  t_Active :: "bool option"
  t_approval_status :: "string option"
  t_created_at :: "timestamptz option"

text \<open>Table \<open>public."Bookings"\<close>. Fields carry the prefix \<open>b_\<close>.\<close>

record booking =
  b_id :: uuid
  b_user_id :: uuid
  b_therapist_id :: uuid
  b_session_date :: sql_date
  b_start_time :: string
  b_end_time :: "string option"
  b_amount :: int
  b_status :: "string option"
  b_patient_name :: "string option"
  b_patient_email :: "string option"
  b_problem_description :: "string option"
  b_meeting_link :: "string option"
  b_session_notes :: "string option"
  b_next_session_notes :: "string option"
  b_reschedule_requested :: "bool option"
  b_reschedule_new_date :: "sql_date option"
  b_reschedule_new_start_time :: "string option"
  b_reschedule_reason :: "string option"
  b_therapist_reschedule_requested :: "bool option"
  b_therapist_reschedule_date :: "sql_date option"
  b_therapist_reschedule_time :: "string option"
  b_therapist_reschedule_reason :: "string option"
  b_created_at :: "timestamptz option"
  b_updated_at :: "timestamptz option"

text \<open>The stored profiles and therapists, which policies and foreign keys read.\<close>

record db =
  tbl_profiles :: "profile list"
  tbl_therapists :: "therapist list"

section \<open>CHECK constraints and foreign keys\<close>

text \<open>A column of type \<open>integer\<close> holds 32 bits.\<close>

definition int4_ok :: "int \<Rightarrow> bool" where
  "int4_ok n = (- 2147483648 \<le> n \<and> n \<le> 2147483647)"

definition profiles_checks :: "profile \<Rightarrow> bool" where
  "profiles_checks p = check_passes (sql_in (Some (p_role p)) [''user'', ''therapist'', ''admin''])"

definition therapists_checks :: "therapist \<Rightarrow> bool" where
  "therapists_checks t =
     (check_passes (sql_ge (Some (t_fee t)) (Some 0)) \<and>
      check_passes (sql_ge (t_experience t) (Some 0)) \<and>
      check_passes (sql_in (t_approval_status t) [''pending'', ''approved'', ''rejected'']))"

definition bookings_checks :: "booking \<Rightarrow> bool" where
  "bookings_checks b =
     (check_passes (sql_ge (Some (b_amount b)) (Some 0)) \<and>
      check_passes (sql_in (b_status b)
        [''pending'', ''confirmed'', ''completed'', ''cancelled'', ''rejected'']))"

text \<open>
  \<open>user_id references profiles(user_id)\<close> and \<open>therapist_id references "Therapists"(id)\<close>.
\<close>

definition bookings_fks :: "db \<Rightarrow> booking \<Rightarrow> bool" where
  "bookings_fks d b =
     (list_ex (\<lambda>p. p_user_id p = b_user_id b) (tbl_profiles d) \<and>
      list_ex (\<lambda>t. t_id t = b_therapist_id b) (tbl_therapists d))"

section \<open>Row level security policies\<close>

text \<open>
  \<open>auth.uid()\<close> is the caller's id, NULL for an unauthenticated caller. No policy names
  a role, so every policy binds every client, signed in or not. The permissive policies
  of one command on one table are combined with OR.

  The admin policies hold the condition
  \<open>exists (select 1 from public.profiles where user_id = auth.uid() and role = 'admin')\<close>.
  The subquery is a select of the caller on \<open>profiles\<close>, bound by the select policies on
  \<open>profiles\<close>, of which "Admin can view all profiles" holds the same subquery. The server
  keeps the list of the tables whose policies it is expanding and raises 42P17 when the
  policies of a table on that list come up again. (The helper \<open>is_admin\<close>, a security
  definer function that would read \<open>profiles\<close> as the owner, is called by no policy.)
\<close>

definition admin_subquery :: "profile list \<Rightarrow> uuid option \<Rightarrow> sql_bool" where
  "admin_subquery visible uid =
     Some (list_ex (\<lambda>p. policy_passes
              (sql_and (sql_eq (Some (p_user_id p)) uid) (sql_eq (Some (p_role p)) (Some ''admin''))))
            visible)"

text \<open>Policies on \<open>profiles\<close> for select and update; \<open>adm\<close> is the answer of the subquery.\<close>

definition users_can_view_own_profile :: "uuid option \<Rightarrow> profile \<Rightarrow> sql_bool" where
  "users_can_view_own_profile uid p = sql_eq uid (Some (p_user_id p))"

definition admin_can_view_all_profiles :: "sql_bool \<Rightarrow> sql_bool" where
  "admin_can_view_all_profiles adm = adm"

definition profiles_select_using :: "sql_bool \<Rightarrow> uuid option \<Rightarrow> profile \<Rightarrow> sql_bool" where
  "profiles_select_using adm uid p =
     sql_or (users_can_view_own_profile uid p) (admin_can_view_all_profiles adm)"

definition users_can_update_own_profile :: "uuid option \<Rightarrow> profile \<Rightarrow> sql_bool" where
  "users_can_update_own_profile uid p = sql_eq uid (Some (p_user_id p))"

definition admin_can_update_all_profiles :: "sql_bool \<Rightarrow> sql_bool" where
  "admin_can_update_all_profiles adm = adm"

definition profiles_update_using :: "sql_bool \<Rightarrow> uuid option \<Rightarrow> profile \<Rightarrow> sql_bool" where
  "profiles_update_using adm uid p =
     sql_or (users_can_update_own_profile uid p) (admin_can_update_all_profiles adm)"

text \<open>
  The rows of \<open>profiles\<close> a select of the client \<open>uid\<close> sees, while the policies of the
  tables in \<open>active\<close> are being expanded: the select policies on \<open>profiles\<close> hold the
  subquery, so \<open>profiles\<close> must not be on the list; it is put on the list and the
  subquery, again a select on \<open>profiles\<close>, is expanded in turn.
\<close>

function profiles_select_rls ::
  "table_name list \<Rightarrow> db \<Rightarrow> uuid option \<Rightarrow> sql_error + profile list" where
  "profiles_select_rls active d uid =
     (if Profiles \<in> set active then Inl PolicyRecursion
      else (case profiles_select_rls (Profiles # active) d uid of
              Inl e \<Rightarrow> Inl e
            | Inr visible \<Rightarrow>
                Inr (filter (\<lambda>p. policy_passes
                               (profiles_select_using (admin_subquery visible uid) uid p))
                       (tbl_profiles d))))"
  by pat_completeness auto
termination
  by (relation "measure (\<lambda>(active, d, uid). if Profiles \<in> set active then 0 else 1)") auto

declare profiles_select_rls.simps [simp del]

text \<open>The subquery inside a policy of a table on the list \<open>active\<close>.\<close>

definition admin_exists :: "table_name list \<Rightarrow> db \<Rightarrow> uuid option \<Rightarrow> sql_error + sql_bool" where
  "admin_exists active d uid =
     (case profiles_select_rls active d uid of
        Inl e \<Rightarrow> Inl e
      | Inr visible \<Rightarrow> Inr (admin_subquery visible uid))"

text \<open>Policies on \<open>"Therapists"\<close> for select.\<close>

definition public_can_view_approved_active_therapists :: "therapist \<Rightarrow> sql_bool" where
  "public_can_view_approved_active_therapists t =
     sql_and (sql_eq (t_approval_status t) (Some ''approved'')) (sql_eq (t_Active t) (Some True))"

definition therapist_can_view_own_therapist_record :: "uuid option \<Rightarrow> therapist \<Rightarrow> sql_bool" where
  "therapist_can_view_own_therapist_record uid t =
     sql_or (sql_eq uid (Some (t_id t))) (sql_eq uid (Some (t_user_id t)))"

definition admin_can_view_all_therapists :: "sql_bool \<Rightarrow> sql_bool" where
  "admin_can_view_all_therapists adm = adm"

definition therapists_select_using :: "sql_bool \<Rightarrow> uuid option \<Rightarrow> therapist \<Rightarrow> sql_bool" where
  "therapists_select_using adm uid t =
     sql_or (public_can_view_approved_active_therapists t)
       (sql_or (therapist_can_view_own_therapist_record uid t) (admin_can_view_all_therapists adm))"

text \<open>Policies on \<open>"Bookings"\<close>.\<close>

definition users_can_insert_own_bookings :: "uuid option \<Rightarrow> booking \<Rightarrow> sql_bool" where
  "users_can_insert_own_bookings uid b = sql_eq uid (Some (b_user_id b))"

definition users_can_view_own_bookings :: "uuid option \<Rightarrow> booking \<Rightarrow> sql_bool" where
  "users_can_view_own_bookings uid b = sql_eq uid (Some (b_user_id b))"

definition users_can_update_own_bookings :: "uuid option \<Rightarrow> booking \<Rightarrow> sql_bool" where
  "users_can_update_own_bookings uid b = sql_eq uid (Some (b_user_id b))"

definition therapist_can_view_assigned_bookings :: "uuid option \<Rightarrow> booking \<Rightarrow> sql_bool" where
  "therapist_can_view_assigned_bookings uid b = sql_eq uid (Some (b_therapist_id b))"

definition therapist_can_update_assigned_bookings :: "uuid option \<Rightarrow> booking \<Rightarrow> sql_bool" where
  "therapist_can_update_assigned_bookings uid b = sql_eq uid (Some (b_therapist_id b))"

definition admin_can_view_all_bookings :: "sql_bool \<Rightarrow> sql_bool" where
  "admin_can_view_all_bookings adm = adm"

definition admin_can_update_all_bookings :: "sql_bool \<Rightarrow> sql_bool" where
  "admin_can_update_all_bookings adm = adm"

definition bookings_select_using :: "sql_bool \<Rightarrow> uuid option \<Rightarrow> booking \<Rightarrow> sql_bool" where
  "bookings_select_using adm uid b =
     sql_or (users_can_view_own_bookings uid b)
       (sql_or (therapist_can_view_assigned_bookings uid b) (admin_can_view_all_bookings adm))"

definition bookings_update_using :: "sql_bool \<Rightarrow> uuid option \<Rightarrow> booking \<Rightarrow> sql_bool" where
  "bookings_update_using adm uid b =
     sql_or (users_can_update_own_bookings uid b)
       (sql_or (therapist_can_update_assigned_bookings uid b) (admin_can_update_all_bookings adm))"

section \<open>Selects\<close>

text \<open>
  \<open>select * from T\<close>: the owner reads every row. For a client the policies of \<open>T\<close> are
  expanded first, with \<open>T\<close> on the list; then the rows the policies let through are
  returned.
\<close>

definition profiles_select :: "db \<Rightarrow> caller \<Rightarrow> sql_error + profile list" where
  "profiles_select d c =
     (case c of
        Owner \<Rightarrow> Inr (tbl_profiles d)
      | Client uid \<Rightarrow> profiles_select_rls [] d uid)"

definition therapists_select :: "db \<Rightarrow> caller \<Rightarrow> sql_error + therapist list" where
  "therapists_select d c =
     (case c of
        Owner \<Rightarrow> Inr (tbl_therapists d)
      | Client uid \<Rightarrow>
          (case admin_exists [Therapists] d uid of
             Inl e \<Rightarrow> Inl e
           | Inr adm \<Rightarrow>
               Inr (filter (\<lambda>t. policy_passes (therapists_select_using adm uid t))
                      (tbl_therapists d))))"

definition bookings_select :: "db \<Rightarrow> caller \<Rightarrow> booking list \<Rightarrow> sql_error + booking list" where
  "bookings_select d c bs =
     (case c of
        Owner \<Rightarrow> Inr bs
      | Client uid \<Rightarrow>
          (case admin_exists [Bookings] d uid of
             Inl e \<Rightarrow> Inl e
           | Inr adm \<Rightarrow>
               Inr (filter (\<lambda>b. policy_passes (bookings_select_using adm uid b)) bs)))"

section \<open>Triggers\<close>

text \<open>
  \<open>update_updated_at_column\<close>, run before update for each row of \<open>profiles\<close>
  (trigger \<open>update_profiles_updated_at\<close>) and of \<open>"Bookings"\<close>
  (trigger \<open>update_bookings_updated_at\<close>): \<open>new.updated_at = now(); return new\<close>.
\<close>

definition update_profiles_updated_at :: "timestamptz \<Rightarrow> profile \<Rightarrow> profile" where
  "update_profiles_updated_at now new = new\<lparr>p_updated_at := Some now\<rparr>"

definition update_bookings_updated_at :: "timestamptz \<Rightarrow> booking \<Rightarrow> booking" where
  "update_bookings_updated_at now new = new\<lparr>b_updated_at := Some now\<rparr>"

text \<open>
  The new row of \<open>auth.users\<close> as \<open>handle_new_user\<close> reads it: \<open>id\<close>, \<open>email\<close> and the
  text values of the keys of \<open>raw_user_meta_data\<close> (\<open>->>\<close> gives NULL for a missing key).
\<close>

record auth_user =
  au_id :: uuid
  au_email :: string
  au_raw_user_meta_data :: "string \<Rightarrow> string option"

definition coalesce :: "'a option \<Rightarrow> 'a \<Rightarrow> 'a" where
  "coalesce x d = (case x of None \<Rightarrow> d | Some v \<Rightarrow> v)"

text \<open>\<open>split_part(s, '@', 1)\<close>: the text before the first \<open>@\<close>, all of it when there is none.\<close>

definition split_part_at_1 :: "string \<Rightarrow> string" where
  "split_part_at_1 s = takeWhile (\<lambda>c. c \<noteq> CHR ''@'') s"

text \<open>
  \<open>handle_new_user\<close>, run after insert on \<open>auth.users\<close> as security definer (no policy
  applies): it inserts the profile; the columns it leaves out are NULL, the two
  timestamps default to \<open>now()\<close>. The CHECK on \<open>role\<close> can refuse the row.
\<close>

definition handle_new_user :: "timestamptz \<Rightarrow> auth_user \<Rightarrow> sql_error + profile" where
  "handle_new_user now new =
     (let row =
        \<lparr> p_user_id = au_id new,
          p_email = au_email new,
          p_role = coalesce (au_raw_user_meta_data new ''role'') ''user'',
          p_full_name = Some (coalesce (au_raw_user_meta_data new ''full_name'')
                                (split_part_at_1 (au_email new))),
          p_phone = None, p_date_of_birth = None, p_gender = None, p_city = None,
          p_address = None, p_emergency_contact_name = None,
          p_emergency_contact_phone = None, p_profile_picture_url = None,
          p_status = None, p_approved = None,
          p_created_at = Some now, p_updated_at = Some now \<rparr>
      in if profiles_checks row then Inr row else Inl CheckViolation)"

section \<open>Statements on one row\<close>

text \<open>
  An UPDATE by the caller \<open>c\<close> at time \<open>now\<close> of the stored row \<open>old\<close> to the row \<open>new\<close>
  (the stored row with the statement's assignments applied). For a client the select
  and update policies are expanded first; the statement then reaches the row only if
  they are true on it; the before-update trigger runs; the resulting row must pass the
  policies again (a policy without \<open>with check\<close> uses its \<open>using\<close> condition), the CHECK
  constraints and the foreign keys. For the owner no policy applies.
\<close>

definition bookings_update ::
  "db \<Rightarrow> caller \<Rightarrow> timestamptz \<Rightarrow> booking \<Rightarrow> booking \<Rightarrow> booking dml_result" where
  "bookings_update d c now old new =
     (case c of
        Owner \<Rightarrow>
          (if \<not> int4_ok (b_amount new) then Rejected NumericValueOutOfRange
           else let row = update_bookings_updated_at now new in
             if \<not> bookings_checks row then Rejected CheckViolation
             else if \<not> bookings_fks d row then Rejected ForeignKeyViolation
             else Done row)
      | Client uid \<Rightarrow>
          (case admin_exists [Bookings] d uid of
             Inl e \<Rightarrow> Rejected e
           | Inr adm \<Rightarrow>
               if \<not> (policy_passes (bookings_select_using adm uid old) \<and>
                       policy_passes (bookings_update_using adm uid old)) then NoRow
               else if \<not> int4_ok (b_amount new) then Rejected NumericValueOutOfRange
               else let row = update_bookings_updated_at now new in
                 if \<not> (policy_passes (bookings_update_using adm uid row) \<and>
                         policy_passes (bookings_select_using adm uid row))
                 then Rejected RlsViolation
                 else if \<not> bookings_checks row then Rejected CheckViolation
                 else if \<not> bookings_fks d row then Rejected ForeignKeyViolation
                 else Done row))"

definition profiles_update ::
  "db \<Rightarrow> caller \<Rightarrow> timestamptz \<Rightarrow> profile \<Rightarrow> profile \<Rightarrow> profile dml_result" where
  "profiles_update d c now old new =
     (case c of
        Owner \<Rightarrow>
          (let row = update_profiles_updated_at now new in
             if \<not> profiles_checks row then Rejected CheckViolation else Done row)
      | Client uid \<Rightarrow>
          (case admin_exists [Profiles] d uid of
             Inl e \<Rightarrow> Rejected e
           | Inr adm \<Rightarrow>
               if \<not> (policy_passes (profiles_select_using adm uid old) \<and>
                       policy_passes (profiles_update_using adm uid old)) then NoRow
               else let row = update_profiles_updated_at now new in
                 if \<not> (policy_passes (profiles_update_using adm uid row) \<and>
                         policy_passes (profiles_select_using adm uid row))
                 then Rejected RlsViolation
                 else if \<not> profiles_checks row then Rejected CheckViolation
                 else Done row))"

text \<open>The row in the table after a statement on it.\<close>

definition stored_after :: "'a \<Rightarrow> 'a dml_result \<Rightarrow> 'a" where
  "stored_after old res = (case res of Done row \<Rightarrow> row | Rejected e \<Rightarrow> old | NoRow \<Rightarrow> old)"

text \<open>
  An INSERT into \<open>"Bookings"\<close> that returns nothing: the columns with a DEFAULT may be
  left out (\<open>id\<close>: \<open>gen_random_uuid()\<close>, here \<open>fresh\<close>; \<open>status\<close>: \<open>'pending'\<close>; the two
  reschedule flags: \<open>false\<close>; the two timestamps: \<open>now()\<close>). The only insert policy,
  "Users can insert own bookings", holds no subquery, so nothing is expanded.
\<close>

record booking_insert =
  i_id :: "uuid col_arg"
  i_user_id :: uuid
  i_therapist_id :: uuid
  i_session_date :: sql_date
  i_start_time :: string
  i_end_time :: "string option"
  i_amount :: int
  i_status :: "string option col_arg"
  i_patient_name :: "string option"
  i_patient_email :: "string option"
  i_problem_description :: "string option"
  i_meeting_link :: "string option"
  i_session_notes :: "string option"
  i_next_session_notes :: "string option"
  i_reschedule_requested :: "bool option col_arg"
  i_reschedule_new_date :: "sql_date option"
  i_reschedule_new_start_time :: "string option"
  i_reschedule_reason :: "string option"
  i_therapist_reschedule_requested :: "bool option col_arg"
  i_therapist_reschedule_date :: "sql_date option"
  i_therapist_reschedule_time :: "string option"
  i_therapist_reschedule_reason :: "string option"
  i_created_at :: "timestamptz option col_arg"
  i_updated_at :: "timestamptz option col_arg"

definition bookings_insert_row :: "uuid \<Rightarrow> timestamptz \<Rightarrow> booking_insert \<Rightarrow> booking" where
  "bookings_insert_row fresh now ins =
     \<lparr> b_id = col_value fresh (i_id ins),
       b_user_id = i_user_id ins,
       b_therapist_id = i_therapist_id ins,
       b_session_date = i_session_date ins,
       b_start_time = i_start_time ins,
       b_end_time = i_end_time ins,
       b_amount = i_amount ins,
       b_status = col_value (Some ''pending'') (i_status ins),
       b_patient_name = i_patient_name ins,
       b_patient_email = i_patient_email ins,
       b_problem_description = i_problem_description ins,
       b_meeting_link = i_meeting_link ins,
       b_session_notes = i_session_notes ins,
       b_next_session_notes = i_next_session_notes ins,
       b_reschedule_requested = col_value (Some False) (i_reschedule_requested ins),
       b_reschedule_new_date = i_reschedule_new_date ins,
       b_reschedule_new_start_time = i_reschedule_new_start_time ins,
       b_reschedule_reason = i_reschedule_reason ins,
       b_therapist_reschedule_requested =
         col_value (Some False) (i_therapist_reschedule_requested ins),
       b_therapist_reschedule_date = i_therapist_reschedule_date ins,
       b_therapist_reschedule_time = i_therapist_reschedule_time ins,
       b_therapist_reschedule_reason = i_therapist_reschedule_reason ins,
       b_created_at = col_value (Some now) (i_created_at ins),
       b_updated_at = col_value (Some now) (i_updated_at ins) \<rparr>"

definition bookings_insert_allowed :: "caller \<Rightarrow> booking \<Rightarrow> bool" where
  "bookings_insert_allowed c row =
     (case c of
        Owner \<Rightarrow> True
      | Client uid \<Rightarrow> policy_passes (users_can_insert_own_bookings uid row))"

definition bookings_insert ::
  "db \<Rightarrow> caller \<Rightarrow> uuid \<Rightarrow> timestamptz \<Rightarrow> booking_insert \<Rightarrow> booking dml_result" where
  "bookings_insert d c fresh now ins =
     (let row = bookings_insert_row fresh now ins in
        if \<not> int4_ok (i_amount ins) then Rejected NumericValueOutOfRange
        else if \<not> bookings_insert_allowed c row then Rejected RlsViolation
        else if \<not> bookings_checks row then Rejected CheckViolation
        else if \<not> bookings_fks d row then Rejected ForeignKeyViolation
        else Done row)"

text \<open>
  The booking rows the store can hold: a row an INSERT stored, and every row an UPDATE
  of such a row stored.
\<close>

inductive reachable_booking :: "db \<Rightarrow> booking \<Rightarrow> bool" for d :: db where
  created: "bookings_insert d c fresh now ins = Done b \<Longrightarrow> reachable_booking d b"
| updated: "reachable_booking d old \<Longrightarrow> bookings_update d c now old new = Done b
            \<Longrightarrow> reachable_booking d b"

section \<open>The client utilities\<close>

text \<open>
  An awaited call of the client library either throws or returns; a response holds
  \<open>data\<close> (possibly null) and \<open>error\<close> (null when there is none).
\<close>

datatype 'a js_result = Throws | Returns 'a

record 'a supabase_response =
  resp_data :: "'a option"
  resp_error :: "string option"

record js_user =
  u_id :: string

text \<open>
  The page: the file name the location shows (assigning \<open>window.location.href\<close>
  navigates there), whether the session was signed out, and the lines \<open>guardDashboard\<close>
  wrote to the console (the console lines of the two helpers are left out).
\<close>

record browser =
  location_page :: string
  signed_out :: bool
  console :: "string list"

text \<open>What the calls of the client library answer during one run of the guard.\<close>

record guard_env =
  auth_getUser :: "js_user supabase_response js_result"
  profiles_single :: "string \<Rightarrow> profile supabase_response js_result"
  therapists_single :: "string \<Rightarrow> string option supabase_response js_result"
  auth_signOut :: "unit js_result"

text \<open>
  \<open>getCurrentUser\<close> and \<open>getUserProfile\<close>: null when the call throws or answers an
  error, the data otherwise.
\<close>

definition getCurrentUser :: "js_user supabase_response js_result \<Rightarrow> js_user option" where
  "getCurrentUser r =
     (case r of
        Throws \<Rightarrow> None
      | Returns resp \<Rightarrow> (if resp_error resp \<noteq> None then None else resp_data resp))"

definition getUserProfile :: "profile supabase_response js_result \<Rightarrow> profile option" where
  "getUserProfile r =
     (case r of
        Throws \<Rightarrow> None
      | Returns resp \<Rightarrow> (if resp_error resp \<noteq> None then None else resp_data resp))"

definition redirectByRole :: "string \<Rightarrow> browser \<Rightarrow> browser" where
  "redirectByRole role w =
     (let currentPage = location_page w;
          targetPage =
            (if role = ''admin'' then ''admin-dashboard.html''
             else if role = ''therapist'' then ''therapist-dashboard.html''
             else ''user-dashboard.html'')
      in if currentPage \<noteq> targetPage then w\<lparr>location_page := targetPage\<rparr> else w)"

definition log :: "string \<Rightarrow> browser \<Rightarrow> browser" where
  "log line w = w\<lparr>console := console w @ [line]\<rparr>"

text \<open>
  \<open>guardDashboard\<close>: every statement of the body is inside its \<open>try\<close>, so a call that
  throws ends in the \<open>catch\<close> (redirect to the login page, result null). The result is
  the pair of user and profile, or null.
\<close>

definition guardDashboard ::
  "guard_env \<Rightarrow> string \<Rightarrow> browser \<Rightarrow> (js_user \<times> profile) option \<times> browser" where
  "guardDashboard env expectedRole w =
     (case getCurrentUser (auth_getUser env) of
        None \<Rightarrow>
          (None, (log ''No authenticated user, redirecting to login'' w)
                   \<lparr>location_page := ''login.html''\<rparr>)
      | Some user \<Rightarrow>
          (case getUserProfile (profiles_single env (u_id user)) of
             None \<Rightarrow>
               (let w1 = log ''Profile not found for user'' w in
                case auth_signOut env of
                  Throws \<Rightarrow>
                    (None, (log ''Error in guardDashboard:'' w1)\<lparr>location_page := ''login.html''\<rparr>)
                | Returns u \<Rightarrow>
                    (None, w1\<lparr>signed_out := True, location_page := ''login.html''\<rparr>))
           | Some profile \<Rightarrow>
               if p_role profile \<noteq> expectedRole then
                 (None, redirectByRole (p_role profile)
                          (log (''Role mismatch: expected '' @ expectedRole @ '', got '' @ p_role profile) w))
               else if p_role profile = ''therapist'' then
                 (case therapists_single env (u_id user) of
                    Throws \<Rightarrow>
                      (None, (log ''Error in guardDashboard:'' w)\<lparr>location_page := ''login.html''\<rparr>)
                  | Returns resp \<Rightarrow>
                      (case resp_data resp of
                         None \<Rightarrow> (Some (user, profile), w)
                       | Some approval_status \<Rightarrow>
                           if approval_status \<noteq> Some ''approved''
                           then (Some (user, profile), log ''Therapist pending approval'' w)
                           else (Some (user, profile), w)))
               else (Some (user, profile), w)))"

text \<open>
  \<open>isValidHttpsUrl\<close>. The platform's URL constructor is the parameter \<open>new_URL\<close>:
  \<open>None\<close> when it throws, the parsed URL with its \<open>protocol\<close> otherwise. \<open>!url\<close> is true
  of the empty string.
\<close>

record js_url =
  url_protocol :: string

definition isValidHttpsUrl :: "(string \<Rightarrow> js_url option) \<Rightarrow> string \<Rightarrow> bool" where
  "isValidHttpsUrl new_URL url =
     (if url = [] then False
      else (case new_URL url of
              None \<Rightarrow> False
            | Some parsed \<Rightarrow> url_protocol parsed = ''https:''))"

text \<open>
  \<open>isFutureDate\<close>. Times are milliseconds since the epoch. The platform's parse of the
  date string is the parameter \<open>Date_parse\<close> (\<open>None\<close> for an invalid date, which
  compares false with everything; a date-only string \<open>YYYY-MM-DD\<close> is read as midnight UTC
  of that day), \<open>now\<close> is the clock read by \<open>new Date()\<close>, and \<open>tz\<close> is the offset of
  the local time zone (local time is \<open>now + tz\<close>), taken as fixed over the local day:
  a day on which the clock changes is not modelled. \<open>today.setHours(0, 0, 0, 0)\<close> is
  the local midnight of the current local day.
\<close>

definition msPerDay :: int where
  "msPerDay = 86400000"

definition local_midnight :: "int \<Rightarrow> int \<Rightarrow> int" where
  "local_midnight tz now = ((now + tz) div msPerDay) * msPerDay - tz"

definition isFutureDate :: "(string \<Rightarrow> int option) \<Rightarrow> int \<Rightarrow> int \<Rightarrow> string \<Rightarrow> bool" where
  "isFutureDate Date_parse tz now dateString =
     (if dateString = [] then False
      else (let inputDate = Date_parse dateString;
                today = local_midnight tz now
            in (case inputDate of None \<Rightarrow> False | Some t \<Rightarrow> today \<le> t)))"

section \<open>Sample data\<close>

definition ex_profile :: "uuid \<Rightarrow> string \<Rightarrow> profile" where
  "ex_profile u r =
     \<lparr> p_user_id = u, p_email = u @ ''@example.com'', p_role = r, p_full_name = Some u,
       p_phone = None, p_date_of_birth = None, p_gender = None, p_city = None,
       p_address = None, p_emergency_contact_name = None, p_emergency_contact_phone = None,
       p_profile_picture_url = None, p_status = None, p_approved = None,
       p_created_at = Some 0, p_updated_at = Some 0 \<rparr>"

definition ex_therapist :: "uuid \<Rightarrow> string option \<Rightarrow> bool option \<Rightarrow> therapist" where
  "ex_therapist u a act =
     \<lparr> t_id = u, t_user_id = u, t_Name = u, t_email = u @ ''@example.com'', t_phone = None,
       t_Specialization = ''Anxiety'', t_fee = 100, t_bio = None, t_experience = Some 5,
       t_license = None, t_Active = act, t_approval_status = a, t_created_at = Some 0 \<rparr>"

definition ex_db :: db where
  "ex_db =
     \<lparr> tbl_profiles = [ex_profile ''pat'' ''user'', ex_profile ''pat2'' ''user'',
                   ex_profile ''ther'' ''therapist'', ex_profile ''ther2'' ''therapist'',
                   ex_profile ''ther3'' ''therapist'', ex_profile ''adm'' ''admin''],
       tbl_therapists = [ex_therapist ''ther'' (Some ''approved'') (Some True),
                     ex_therapist ''ther2'' (Some ''pending'') (Some True),
                     ex_therapist ''ther3'' (Some ''approved'') (Some False)] \<rparr>"

definition ex_booking :: "string option \<Rightarrow> booking" where
  "ex_booking st =
     \<lparr> b_id = ''bk'', b_user_id = ''pat'', b_therapist_id = ''ther'', b_session_date = 20000,
       b_start_time = ''10:00'', b_end_time = None, b_amount = 100, b_status = st,
       b_patient_name = Some ''pat'', b_patient_email = Some ''pat@example.com'',
       b_problem_description = None, b_meeting_link = None, b_session_notes = None,
       b_next_session_notes = None, b_reschedule_requested = Some False,
       b_reschedule_new_date = None, b_reschedule_new_start_time = None,
       b_reschedule_reason = None, b_therapist_reschedule_requested = Some False,
       b_therapist_reschedule_date = None, b_therapist_reschedule_time = None,
       b_therapist_reschedule_reason = None, b_created_at = Some 0, b_updated_at = Some 0 \<rparr>"

definition ex_insert :: booking_insert where
  "ex_insert =
     \<lparr> i_id = Given ''bk'', i_user_id = ''pat'', i_therapist_id = ''ther'',
       i_session_date = 20000, i_start_time = ''10:00'', i_end_time = None, i_amount = 100,
       i_status = Default, i_patient_name = Some ''pat'',
       i_patient_email = Some ''pat@example.com'', i_problem_description = None,
       i_meeting_link = None, i_session_notes = None, i_next_session_notes = None,
       i_reschedule_requested = Default, i_reschedule_new_date = None,
       i_reschedule_new_start_time = None, i_reschedule_reason = None,
       i_therapist_reschedule_requested = Default, i_therapist_reschedule_date = None,
       i_therapist_reschedule_time = None, i_therapist_reschedule_reason = None,
       i_created_at = Default, i_updated_at = Default \<rparr>"

definition ex_auth_user :: "(string \<Rightarrow> string option) \<Rightarrow> auth_user" where
  "ex_auth_user meta =
     \<lparr> au_id = ''new'', au_email = ''new@example.com'', au_raw_user_meta_data = meta \<rparr>"

definition ex_new_URL :: "string \<Rightarrow> js_url option" where
  "ex_new_URL s =
     (if s = ''http://example.com'' then Some \<lparr>url_protocol = ''http:''\<rparr>
      else if s = ''https://example.com/room/abc'' then Some \<lparr>url_protocol = ''https:''\<rparr>
      else None)"

definition ex_Date_parse :: "string \<Rightarrow> int option" where
  "ex_Date_parse s =
     (if s = ''2024-03-04'' then Some (19786 * msPerDay)
      else if s = ''2024-03-05'' then Some (19787 * msPerDay)
      else if s = ''2024-03-06'' then Some (19788 * msPerDay)
      else None)"

definition ex_guard_env :: "string option option \<Rightarrow> guard_env" where
  "ex_guard_env approval =
     \<lparr> auth_getUser = Returns \<lparr>resp_data = Some \<lparr>u_id = ''ther2''\<rparr>, resp_error = None\<rparr>,
       profiles_single = (\<lambda>i. Returns \<lparr>resp_data = Some (ex_profile i ''therapist''), resp_error = None\<rparr>),
       therapists_single = (\<lambda>i. Returns \<lparr>resp_data = approval, resp_error = None\<rparr>),
       auth_signOut = Returns () \<rparr>"

section \<open>The specification's predicates\<close>


text \<open>The values the CHECK constraint on \<open>status\<close> lists.\<close>

definition bookings_status_values :: "string list" where
  "bookings_status_values = [''pending'', ''confirmed'', ''completed'', ''cancelled'', ''rejected'']"

text \<open>The values the CHECK constraint on \<open>role\<close> lists.\<close>

definition profiles_role_values :: "string list" where
  "profiles_role_values = [''user'', ''therapist'', ''admin'']"

text \<open>
  The read predicate of the specification (section 4.1) for the principal with
  identity \<open>u\<close>, whose role is the role of the stored profile.
\<close>

definition spec_isSelf :: "uuid \<Rightarrow> booking \<Rightarrow> bool" where
  "spec_isSelf u b = (b_user_id b = u)"

definition spec_isAssignedTherapist :: "uuid \<Rightarrow> booking \<Rightarrow> bool" where
  "spec_isAssignedTherapist u b = (b_therapist_id b = u)"

definition spec_isAdmin :: "db \<Rightarrow> uuid \<Rightarrow> bool" where
  "spec_isAdmin d u = list_ex (\<lambda>p. p_user_id p = u \<and> p_role p = ''admin'') (tbl_profiles d)"

definition spec_canRead :: "db \<Rightarrow> uuid \<Rightarrow> booking \<Rightarrow> bool" where
  "spec_canRead d u b = (spec_isSelf u b \<or> spec_isAssignedTherapist u b \<or> spec_isAdmin d u)"

section \<open>Facts about the policies and the sample data\<close>

text \<open>
  The expansion of the select policies on \<open>profiles\<close> meets \<open>profiles\<close> again, whatever
  the list, the stored rows and the caller: every statement of a client whose policies
  hold the admin subquery is refused with 42P17.
\<close>

lemma profiles_select_rls_recursion: "profiles_select_rls active d uid = Inl PolicyRecursion"
  apply (subst profiles_select_rls.simps)
  apply (subst profiles_select_rls.simps)
  apply simp
  done

lemma admin_exists_recursion: "admin_exists active d uid = Inl PolicyRecursion"
  by (simp add: admin_exists_def profiles_select_rls_recursion)

lemma therapists_select_client: "therapists_select d (Client uid) = Inl PolicyRecursion"
  by (simp add: therapists_select_def admin_exists_recursion)

lemma bookings_select_client: "bookings_select d (Client uid) bs = Inl PolicyRecursion"
  by (simp add: bookings_select_def admin_exists_recursion)

lemma bookings_update_client: "bookings_update d (Client uid) now old new = Rejected PolicyRecursion"
  by (simp add: bookings_update_def admin_exists_recursion)

lemma profiles_update_client: "profiles_update d (Client uid) now old new = Rejected PolicyRecursion"
  by (simp add: profiles_update_def admin_exists_recursion)

lemma bookings_checks_iff:
  "bookings_checks b \<longleftrightarrow>
     0 \<le> b_amount b \<and> (b_status b = None \<or> (\<exists>s \<in> set bookings_status_values. b_status b = Some s))"
  by (cases "b_status b")
    (auto simp add: bookings_checks_def check_passes_def sql_ge_def sql_in_def
      bookings_status_values_def)

lemma profiles_checks_iff: "profiles_checks p \<longleftrightarrow> p_role p \<in> set profiles_role_values"
  by (simp add: profiles_checks_def check_passes_def sql_in_def profiles_role_values_def)

lemma bookings_update_owner:
  "bookings_update d Owner now old new =
     (if \<not> int4_ok (b_amount new) then Rejected NumericValueOutOfRange
      else if \<not> bookings_checks new then Rejected CheckViolation
      else if \<not> bookings_fks d new then Rejected ForeignKeyViolation
      else Done (new\<lparr>b_updated_at := Some now\<rparr>))"
  by (simp add: bookings_update_def update_bookings_updated_at_def Let_def bookings_checks_def
      bookings_fks_def)

lemma profiles_update_owner:
  "profiles_update d Owner now old new =
     (if \<not> profiles_checks new then Rejected CheckViolation
      else Done (new\<lparr>p_updated_at := Some now\<rparr>))"
  by (simp add: profiles_update_def update_profiles_updated_at_def Let_def profiles_checks_def)

lemma bookings_insert_eq:
  "bookings_insert d c fresh now ins =
     (if \<not> int4_ok (i_amount ins) then Rejected NumericValueOutOfRange
      else if \<not> (c = Owner \<or> c = Client (Some (i_user_id ins))) then Rejected RlsViolation
      else if \<not> bookings_checks (bookings_insert_row fresh now ins) then Rejected CheckViolation
      else if \<not> bookings_fks d (bookings_insert_row fresh now ins) then Rejected ForeignKeyViolation
      else Done (bookings_insert_row fresh now ins))"
proof -
  have "bookings_insert_allowed c (bookings_insert_row fresh now ins) \<longleftrightarrow>
          c = Owner \<or> c = Client (Some (i_user_id ins))"
    by (auto simp add: bookings_insert_allowed_def users_can_insert_own_bookings_def sql_eq_def
        policy_passes_def bookings_insert_row_def split: caller.splits option.splits)
  then show ?thesis by (simp add: bookings_insert_def Let_def)
qed

lemma ex_db_fks: "b_user_id b = ''pat'' \<Longrightarrow> b_therapist_id b = ''ther'' \<Longrightarrow> bookings_fks ex_db b"
  by (simp add: bookings_fks_def ex_db_def ex_profile_def ex_therapist_def)

lemma ex_insert_done:
  "bookings_insert ex_db (Client (Some ''pat'')) ''bk'' 0 ex_insert = Done (ex_booking (Some ''pending''))"
  by (simp add: bookings_insert_eq bookings_insert_row_def ex_insert_def col_value_def
      bookings_checks_iff bookings_status_values_def ex_db_fks ex_booking_def int4_ok_def)

text \<open>
  The conditions of the select policies on \<open>"Therapists"\<close>, were they evaluated for an
  unauthenticated caller: the subquery is false on every list of rows, the condition of
  the own-record policy is unknown, and the public policy holds of the approved and
  active rows only.
\<close>

lemma admin_subquery_anon: "admin_subquery visible None = Some False"
  by (simp add: admin_subquery_def sql_eq_def sql_and_def policy_passes_def list_ex_iff)

lemma therapists_select_using_anon:
  "policy_passes (therapists_select_using (admin_subquery visible None) None t) \<longleftrightarrow>
     t_approval_status t = Some ''approved'' \<and> t_Active t = Some True"
  by (auto simp add: therapists_select_using_def public_can_view_approved_active_therapists_def
      therapist_can_view_own_therapist_record_def admin_can_view_all_therapists_def
      admin_subquery_anon sql_or_def sql_and_def sql_eq_def policy_passes_def split: option.splits)

section \<open>The public therapist directory\<close>

text \<open>
  C3. Every therapist record returned to an unauthenticated caller (\<open>auth.uid()\<close> is NULL)
  has \<open>approval_status = 'approved'\<close> and \<open>Active = true\<close>: the select policies on
  \<open>"Therapists"\<close> bind the unauthenticated caller too, "Admin can view all therapists"
  among them, so the public select is refused with 42P17 and returns no record at all;
  no pending, rejected or inactive record is in its result.
\<close>

theorem public_directory_only_approved_active:
  "therapists_select d (Client None) = Inl PolicyRecursion \<and>
   (\<forall>t \<in> set (returned_rows (therapists_select d (Client None))).
      t_approval_status t = Some ''approved'' \<and> t_Active t = Some True)"
  by (simp add: therapists_select_client returned_rows_def)

theorem public_directory_only_approved_active_witness:
  "therapists_select ex_db (Client None) = Inl PolicyRecursion \<and>
   returned_rows (therapists_select ex_db (Client None)) = []"
  using public_directory_only_approved_active [of ex_db]
  by (simp add: returned_rows_def)

section \<open>Status changes of a booking\<close>







section \<open>Reading bookings\<close>

text \<open>
  C7. The three select policies on \<open>"Bookings"\<close> name the owning patient, the assigned
  therapist and the admin, as the claim does, but the admin policy holds the subquery on
  \<open>profiles\<close>: the select of the patient who owns the booking, and of every other
  client, is refused with 42P17 and returns no booking.
\<close>

theorem bookings_select_refused_for_owning_patient:
  "spec_canRead ex_db ''pat'' (ex_booking (Some ''pending'')) \<and>
   bookings_select ex_db (Client (Some ''pat'')) [ex_booking (Some ''pending'')]
     = Inl PolicyRecursion \<and>
   spec_canRead ex_db ''adm'' (ex_booking (Some ''pending'')) \<and>
   bookings_select ex_db (Client (Some ''adm'')) [ex_booking (Some ''pending'')]
     = Inl PolicyRecursion"
  by (simp add: bookings_select_client spec_canRead_def spec_isSelf_def spec_isAdmin_def
      ex_booking_def ex_db_def ex_profile_def)

section \<open>Timestamps of a booking\<close>

text \<open>
  C9, as stated, fails: \<open>created_at\<close> is a column like any other, and an update that
  assigns it is accepted (here the update of the owner of the tables); the stored value
  changes from \<open>0\<close> to \<open>999\<close>.
\<close>

theorem created_at_overwritten_by_update:
  "bookings_update ex_db Owner 5 (ex_booking (Some ''pending''))
       ((ex_booking (Some ''pending''))\<lparr>b_created_at := Some 999\<rparr>)
     = Done ((ex_booking (Some ''pending''))\<lparr>b_created_at := Some 999, b_updated_at := Some 5\<rparr>) \<and>
   b_created_at (ex_booking (Some ''pending'')) = Some 0"
  by (simp add: bookings_update_owner bookings_checks_iff bookings_status_values_def
      ex_booking_def ex_db_fks int4_ok_def)

text \<open>
  C9, amended. Every accepted update of an existing booking stores the row of the
  statement with \<open>updated_at\<close> set to the time of the update by the trigger; the trigger
  leaves \<open>created_at\<close> as the statement gave it, so \<open>created_at\<close> keeps its value
  whenever the statement does not assign it.
\<close>

theorem update_refreshes_updated_at:
  assumes "bookings_update d c now old new = Done row"
  shows "row = new\<lparr>b_updated_at := Some now\<rparr> \<and> b_updated_at row = Some now \<and>
         b_created_at row = b_created_at new \<and>
         (b_created_at new = b_created_at old \<longrightarrow> b_created_at row = b_created_at old)"
  using assms
  by (cases c) (auto simp add: bookings_update_owner bookings_update_client split: if_splits)

theorem update_refreshes_updated_at_witness:
  "bookings_update ex_db Owner 42 (ex_booking (Some ''pending''))
       ((ex_booking (Some ''pending''))\<lparr>b_meeting_link := Some ''https://meet.example.com/x''\<rparr>)
     = Done ((ex_booking (Some ''pending''))
         \<lparr>b_meeting_link := Some ''https://meet.example.com/x'', b_updated_at := Some 42\<rparr>) \<and>
   b_updated_at ((ex_booking (Some ''pending''))
         \<lparr>b_meeting_link := Some ''https://meet.example.com/x'', b_updated_at := Some 42\<rparr>) = Some 42 \<and>
   b_created_at ((ex_booking (Some ''pending''))
         \<lparr>b_meeting_link := Some ''https://meet.example.com/x'', b_updated_at := Some 42\<rparr>) = Some 0"
proof -
  have run: "bookings_update ex_db Owner 42 (ex_booking (Some ''pending''))
       ((ex_booking (Some ''pending''))\<lparr>b_meeting_link := Some ''https://meet.example.com/x''\<rparr>)
     = Done ((ex_booking (Some ''pending''))
         \<lparr>b_meeting_link := Some ''https://meet.example.com/x'', b_updated_at := Some 42\<rparr>)"
    by (simp add: bookings_update_owner bookings_checks_iff bookings_status_values_def
        ex_booking_def ex_db_fks int4_ok_def)
  from update_refreshes_updated_at [OF run] run show ?thesis by (simp add: ex_booking_def)
qed

section \<open>The two reschedule channels\<close>

text \<open>
  C6, as stated, fails: the patient inserts a booking and gives both flags the value
  true. The insert policy holds no subquery, nothing checks the two columns, and the
  stored row has both channels open.
\<close>

theorem both_reschedule_channels_open:
  "reachable_booking ex_db
     ((ex_booking (Some ''pending''))
        \<lparr>b_reschedule_requested := Some True, b_therapist_reschedule_requested := Some True\<rparr>) \<and>
   b_reschedule_requested ((ex_booking (Some ''pending''))
        \<lparr>b_reschedule_requested := Some True, b_therapist_reschedule_requested := Some True\<rparr>)
     = Some True \<and>
   b_therapist_reschedule_requested ((ex_booking (Some ''pending''))
        \<lparr>b_reschedule_requested := Some True, b_therapist_reschedule_requested := Some True\<rparr>)
     = Some True"
proof -
  have "bookings_insert ex_db (Client (Some ''pat'')) ''bk'' 0
          (ex_insert\<lparr>i_reschedule_requested := Given (Some True),
                      i_therapist_reschedule_requested := Given (Some True)\<rparr>)
        = Done ((ex_booking (Some ''pending''))
            \<lparr>b_reschedule_requested := Some True,
             b_therapist_reschedule_requested := Some True\<rparr>)"
    by (simp add: bookings_insert_eq bookings_insert_row_def ex_insert_def col_value_def
        bookings_checks_iff bookings_status_values_def ex_db_fks ex_booking_def int4_ok_def)
  then have "reachable_booking ex_db
     ((ex_booking (Some ''pending''))
        \<lparr>b_reschedule_requested := Some True, b_therapist_reschedule_requested := Some True\<rparr>)"
    by (rule reachable_booking.created)
  then show ?thesis by (simp add: ex_booking_def)
qed

text \<open>
  C6, amended. The store does not keep the two reschedule channels mutually exclusive:
  whenever an insert of a booking is accepted, the same insert with the two flags given
  any values (both true included) is accepted and stores these values; a booking
  inserted without a flag has that flag false; and an accepted update stores the two
  flags as the statement gives them.
\<close>

theorem reschedule_flags_independent:
  assumes "bookings_insert d c fresh now ins = Done b"
  shows "bookings_insert d c fresh now
           (ins\<lparr>i_reschedule_requested := Given f1, i_therapist_reschedule_requested := Given f2\<rparr>)
         = Done (b\<lparr>b_reschedule_requested := f1, b_therapist_reschedule_requested := f2\<rparr>) \<and>
         (i_reschedule_requested ins = Default \<longrightarrow> b_reschedule_requested b = Some False) \<and>
         (i_therapist_reschedule_requested ins = Default \<longrightarrow>
            b_therapist_reschedule_requested b = Some False) \<and>
         (\<forall>row. bookings_update d c' t old new = Done row \<longrightarrow>
            b_reschedule_requested row = b_reschedule_requested new \<and>
            b_therapist_reschedule_requested row = b_therapist_reschedule_requested new)"
proof -
  have ins: "bookings_insert d c fresh now
           (ins\<lparr>i_reschedule_requested := Given f1, i_therapist_reschedule_requested := Given f2\<rparr>)
         = Done (b\<lparr>b_reschedule_requested := f1, b_therapist_reschedule_requested := f2\<rparr>)"
    using assms
    by (auto simp add: bookings_insert_eq bookings_insert_row_def col_value_def
        bookings_checks_iff bookings_fks_def split: if_splits)
  have dflt: "(i_reschedule_requested ins = Default \<longrightarrow> b_reschedule_requested b = Some False) \<and>
         (i_therapist_reschedule_requested ins = Default \<longrightarrow>
            b_therapist_reschedule_requested b = Some False)"
    using assms
    by (auto simp add: bookings_insert_eq bookings_insert_row_def col_value_def split: if_splits)
  have upd: "\<forall>row. bookings_update d c' t old new = Done row \<longrightarrow>
            b_reschedule_requested row = b_reschedule_requested new \<and>
            b_therapist_reschedule_requested row = b_therapist_reschedule_requested new"
    by (cases c') (auto simp add: bookings_update_owner bookings_update_client split: if_splits)
  from ins dflt upd show ?thesis by blast
qed

theorem reschedule_flags_independent_witness:
  "bookings_insert ex_db (Client (Some ''pat'')) ''bk'' 0 ex_insert
     = Done (ex_booking (Some ''pending'')) \<and>
   bookings_insert ex_db (Client (Some ''pat'')) ''bk'' 0
       (ex_insert\<lparr>i_reschedule_requested := Given (Some True),
                   i_therapist_reschedule_requested := Given (Some True)\<rparr>)
     = Done ((ex_booking (Some ''pending''))
         \<lparr>b_reschedule_requested := Some True, b_therapist_reschedule_requested := Some True\<rparr>) \<and>
   b_reschedule_requested (ex_booking (Some ''pending'')) = Some False \<and>
   b_therapist_reschedule_requested (ex_booking (Some ''pending'')) = Some False"
  using reschedule_flags_independent [OF ex_insert_done, of "Some True" "Some True"]
    ex_insert_done
  by (simp add: ex_booking_def)

section \<open>The role of a profile\<close>

text \<open>
  C8. For every newly created principal the role of the profile is assigned at
  creation: it is \<open>user\<close> when the sign-up supplies no role, and the role supplied when
  that is one of user, therapist, admin. After creation no update of a client is
  accepted on \<open>profiles\<close>, the update of the principal themself included: it is refused
  with 42P17 and the stored profile, its role included, is unchanged. An accepted update
  of a profile is an update of the owner of the tables, out of band.
\<close>

theorem role_assignment_and_change:
  "(au_raw_user_meta_data new ''role'' = None \<longrightarrow>
      (\<exists>p. handle_new_user now new = Inr p \<and> p_role p = ''user'')) \<and>
   (\<forall>r. au_raw_user_meta_data new ''role'' = Some r \<and> r \<in> set profiles_role_values \<longrightarrow>
      (\<exists>p. handle_new_user now new = Inr p \<and> p_role p = r)) \<and>
   (\<forall>p. handle_new_user now new = Inr p \<longrightarrow>
      p_role p = coalesce (au_raw_user_meta_data new ''role'') ''user'') \<and>
   (\<forall>row. profiles_update d c t old upd = Done row \<longrightarrow> c = Owner) \<and>
   profiles_update d (Client uid) t old upd = Rejected PolicyRecursion \<and>
   stored_after old (profiles_update d (Client uid) t old upd) = old"
  by (cases c)
    (auto simp add: handle_new_user_def coalesce_def Let_def profiles_checks_iff
      profiles_role_values_def profiles_update_client stored_after_def split: if_splits)

theorem role_assignment_and_change_witness:
  "(\<exists>p. handle_new_user 3 (ex_auth_user Map.empty) = Inr p \<and> p_role p = ''user'') \<and>
   (\<exists>p. handle_new_user 3 (ex_auth_user [''role'' \<mapsto> ''therapist'']) = Inr p \<and>
         p_role p = ''therapist'') \<and>
   profiles_update ex_db (Client (Some ''pat'')) 3 (ex_profile ''pat'' ''user'')
       ((ex_profile ''pat'' ''user'')\<lparr>p_role := ''admin''\<rparr>) = Rejected PolicyRecursion \<and>
   stored_after (ex_profile ''pat'' ''user'')
       (profiles_update ex_db (Client (Some ''pat'')) 3 (ex_profile ''pat'' ''user'')
          ((ex_profile ''pat'' ''user'')\<lparr>p_role := ''admin''\<rparr>)) = ex_profile ''pat'' ''user'' \<and>
   profiles_update ex_db Owner 3 (ex_profile ''pat'' ''user'')
       ((ex_profile ''pat'' ''user'')\<lparr>p_role := ''admin''\<rparr>)
     = Done ((ex_profile ''pat'' ''admin'')\<lparr>p_updated_at := Some 3\<rparr>)"
  using role_assignment_and_change
    [of "ex_auth_user Map.empty" 3 ex_db "Client (Some ''pat'')" 3 "ex_profile ''pat'' ''user''"
      "(ex_profile ''pat'' ''user'')\<lparr>p_role := ''admin''\<rparr>" "Some ''pat''"]
    role_assignment_and_change
    [of "ex_auth_user [''role'' \<mapsto> ''therapist'']" 3 ex_db Owner 3 "ex_profile ''pat'' ''user''"
      "(ex_profile ''pat'' ''user'')\<lparr>p_role := ''admin''\<rparr>" "Some ''pat''"]
  by (simp add: profiles_update_client profiles_update_owner profiles_checks_iff
      profiles_role_values_def ex_profile_def ex_auth_user_def stored_after_def
      handle_new_user_def coalesce_def Let_def)

section \<open>The dashboard guard\<close>

text \<open>
  C10. For every authenticated principal whose profile role is \<open>therapist\<close> and equals
  the expected role, \<open>guardDashboard\<close> returns the pair of user and profile whatever the
  lookup of the therapist record answers (no record, or a record with any approval
  status, NULL included), provided the lookup does not throw: it neither redirects nor
  signs out. A status other than approved only writes a line to the console.
\<close>

theorem guardDashboard_admits_unapproved_therapist:
  assumes "getCurrentUser (auth_getUser env) = Some user"
    and "getUserProfile (profiles_single env (u_id user)) = Some profile"
    and "p_role profile = ''therapist''" and "expectedRole = p_role profile"
    and "therapists_single env (u_id user) = Returns resp"
  shows "fst (guardDashboard env expectedRole w) = Some (user, profile) \<and>
         location_page (snd (guardDashboard env expectedRole w)) = location_page w \<and>
         signed_out (snd (guardDashboard env expectedRole w)) = signed_out w"
  using assms
  by (simp add: guardDashboard_def log_def split: option.splits)

theorem guardDashboard_admits_unapproved_therapist_witness:
  "fst (guardDashboard (ex_guard_env (Some (Some ''pending''))) ''therapist''
          \<lparr>location_page = ''therapist-dashboard.html'', signed_out = False, console = []\<rparr>)
     = Some (\<lparr>u_id = ''ther2''\<rparr>, ex_profile ''ther2'' ''therapist'') \<and>
   fst (guardDashboard (ex_guard_env (Some (Some ''rejected''))) ''therapist''
          \<lparr>location_page = ''therapist-dashboard.html'', signed_out = False, console = []\<rparr>)
     = Some (\<lparr>u_id = ''ther2''\<rparr>, ex_profile ''ther2'' ''therapist'')"
  using guardDashboard_admits_unapproved_therapist
    [of "ex_guard_env (Some (Some ''pending''))" "\<lparr>u_id = ''ther2''\<rparr>"
      "ex_profile ''ther2'' ''therapist''" "''therapist''"
      "\<lparr>resp_data = Some (Some ''pending''), resp_error = None\<rparr>"
      "\<lparr>location_page = ''therapist-dashboard.html'', signed_out = False, console = []\<rparr>"]
  by (simp add: guardDashboard_def getCurrentUser_def getUserProfile_def ex_guard_env_def
      ex_profile_def log_def)

section \<open>The meeting link validator\<close>

text \<open>
  C5. For a URL constructor that throws on the empty string, \<open>isValidHttpsUrl\<close> accepts a
  string iff the constructor parses it and the protocol of the result is \<open>https:\<close>. With
  a constructor that parses the two sample links as the platform does,
  \<open>http://example.com\<close> is refused and \<open>https://example.com/room/abc\<close> is accepted.
\<close>

theorem isValidHttpsUrl_iff_https:
  assumes "new_URL [] = None"
    and "\<exists>u. new_URL ''http://example.com'' = Some u \<and> url_protocol u = ''http:''"
    and "\<exists>u. new_URL ''https://example.com/room/abc'' = Some u \<and> url_protocol u = ''https:''"
  shows "(\<forall>s. isValidHttpsUrl new_URL s \<longleftrightarrow>
            (\<exists>u. new_URL s = Some u \<and> url_protocol u = ''https:'')) \<and>
         \<not> isValidHttpsUrl new_URL ''http://example.com'' \<and>
         isValidHttpsUrl new_URL ''https://example.com/room/abc''"
  using assms
  by (auto simp add: isValidHttpsUrl_def split: option.splits)

theorem isValidHttpsUrl_iff_https_witness:
  "ex_new_URL [] = None \<and>
   (\<exists>u. ex_new_URL ''http://example.com'' = Some u \<and> url_protocol u = ''http:'') \<and>
   (\<exists>u. ex_new_URL ''https://example.com/room/abc'' = Some u \<and> url_protocol u = ''https:'') \<and>
   \<not> isValidHttpsUrl ex_new_URL ''http://example.com'' \<and>
   isValidHttpsUrl ex_new_URL ''https://example.com/room/abc'' \<and>
   \<not> isValidHttpsUrl ex_new_URL ''not a url''"
  using isValidHttpsUrl_iff_https [of ex_new_URL]
  by (simp add: ex_new_URL_def isValidHttpsUrl_def)

section \<open>The date validator\<close>

text \<open>
  For a date-only string of the day \<open>day\<close> (days since the epoch), read as midnight UTC
  of that day: the validator compares midnight UTC of the day given with the local
  midnight of the current local day \<open>(now + tz) div msPerDay\<close>.
\<close>

lemma isFutureDate_iff:
  assumes "Date_parse s = Some (day * msPerDay)" and "s \<noteq> []"
  shows "isFutureDate Date_parse tz now s \<longleftrightarrow>
           ((now + tz) div msPerDay) * msPerDay - tz \<le> day * msPerDay"
  using assms by (simp add: isFutureDate_def local_midnight_def)

lemma isFutureDate_past:
  assumes "Date_parse s = Some (day * msPerDay)" and "s \<noteq> []"
    and "day < (now + tz) div msPerDay" and "tz < msPerDay"
  shows "\<not> isFutureDate Date_parse tz now s"
proof -
  let ?T = "(now + tz) div msPerDay"
  have "day + 1 \<le> ?T" using assms(3) by simp
  then have "(day + 1) * msPerDay \<le> ?T * msPerDay"
    by (simp add: msPerDay_def)
  then have "day * msPerDay < ?T * msPerDay - tz"
    using assms(4) by (simp add: algebra_simps)
  then show ?thesis using assms(1,2) by (simp add: isFutureDate_def local_midnight_def)
qed

lemma isFutureDate_future:
  assumes "Date_parse s = Some (day * msPerDay)" and "s \<noteq> []"
    and "(now + tz) div msPerDay < day" and "- msPerDay \<le> tz"
  shows "isFutureDate Date_parse tz now s"
proof -
  let ?T = "(now + tz) div msPerDay"
  have "?T + 1 \<le> day" using assms(3) by simp
  then have "(?T + 1) * msPerDay \<le> day * msPerDay"
    by (simp add: msPerDay_def)
  then have "?T * msPerDay - tz \<le> day * msPerDay"
    using assms(4) by (simp add: algebra_simps)
  then show ?thesis using assms(1,2) by (simp add: isFutureDate_def local_midnight_def)
qed

lemma isFutureDate_today:
  assumes "Date_parse s = Some (day * msPerDay)" and "s \<noteq> []"
    and "(now + tz) div msPerDay = day"
  shows "isFutureDate Date_parse tz now s \<longleftrightarrow> 0 \<le> tz"
  using assms by (simp add: isFutureDate_def local_midnight_def)

lemma bookings_insert_defaults:
  assumes "bookings_insert d c fresh now ins = Done b" and "i_status ins = Default"
  shows "b_status b = Some ''pending'' \<and> b_amount b = i_amount ins \<and> 0 \<le> b_amount b"
  using assms
  by (auto simp add: bookings_insert_eq bookings_insert_row_def col_value_def
      bookings_checks_iff split: if_splits caller.splits)

text \<open>
  C4. The validator is documented as "Validate date is not in the past", and the claim
  has a booking for the current date accepted. West of UTC this fails: on 2024-03-05 at
  15:00 local time in a zone five hours behind UTC (20:00 UTC, \<open>now = 1709668800000\<close>,
  \<open>tz = - 18000000\<close>), the current local day is day 19787, the string \<open>2024-03-05\<close> is
  midnight UTC of day 19787, the local midnight is 05:00 UTC of that day, and the
  validator answers false. The next day is accepted there, and the same date is accepted
  at the same instant in a zone on UTC.
\<close>

theorem isFutureDate_rejects_current_date_west_of_utc:
  "(1709668800000 + (- 18000000)) div msPerDay = 19787 \<and>
   ex_Date_parse ''2024-03-05'' = Some (19787 * msPerDay) \<and>
   isFutureDate ex_Date_parse (- 18000000) 1709668800000 ''2024-03-05'' = False \<and>
   isFutureDate ex_Date_parse (- 18000000) 1709668800000 ''2024-03-06'' = True \<and>
   isFutureDate ex_Date_parse 0 1709668800000 ''2024-03-05'' = True"
  by (simp add: isFutureDate_def local_midnight_def ex_Date_parse_def msPerDay_def)

end

